theory Spec2Isabelle
  imports Complex_Main "HOL-Library.Extended_Nat"
begin

section \<open>Python values shared by the modules\<close>

text \<open>
  The exceptions the modelled functions can raise. A function that can raise returns
  \<open>py_error + 'a\<close>, with \<open>Inl\<close> for the exception.
\<close>

datatype py_error = ZeroDivisionError | KeyError

text \<open>\<^verbatim>\<open>d.get(k, dflt)\<close> on a dictionary.\<close>

definition dict_get :: "('k \<rightharpoonup> 'v) \<Rightarrow> 'k \<Rightarrow> 'v \<Rightarrow> 'v" where
  "dict_get d k dflt = (case d k of None \<Rightarrow> dflt | Some v \<Rightarrow> v)"

text \<open>Python's true division \<^verbatim>\<open>a / b\<close>, which raises on a zero divisor.\<close>

definition py_truediv :: "rat \<Rightarrow> rat \<Rightarrow> py_error + rat" where
  "py_truediv a b = (if b = 0 then Inl ZeroDivisionError else Inr (a / b))"


section \<open>The scoring engine: \<^verbatim>\<open>src/utils/pontuacao.py\<close>\<close>

text \<open>
  A prediction and a result are dictionaries from key names to goal counts. A key may be
  absent (\<open>None\<close> of the map); a key that is present holds an integer. Points are
  Python numbers (integers and floats), modelled as rationals.
\<close>

type_synonym placar = "string \<rightharpoonup> int"

definition verificar_resultado_exato :: "placar \<Rightarrow> placar \<Rightarrow> bool" where
  "verificar_resultado_exato palpite resultado =
     (palpite ''palpite_mandante'' = resultado ''gols_mandante'' \<and>
      palpite ''palpite_visitante'' = resultado ''gols_visitante'')"

definition verificar_vitoria_gols_um_time :: "placar \<Rightarrow> placar \<Rightarrow> bool" where
  "verificar_vitoria_gols_um_time palpite resultado =
     (let palp_mandante = dict_get palpite ''palpite_mandante'' 0;
          palp_visitante = dict_get palpite ''palpite_visitante'' 0;
          res_mandante = dict_get resultado ''gols_mandante'' 0;
          res_visitante = dict_get resultado ''gols_visitante'' 0
      in if palp_mandante > palp_visitante \<and> res_mandante > res_visitante
         then (palp_mandante = res_mandante) \<noteq> (palp_visitante = res_visitante)
         else if palp_visitante > palp_mandante \<and> res_visitante > res_mandante
         then (palp_mandante = res_mandante) \<noteq> (palp_visitante = res_visitante)
         else False)"

definition verificar_vitoria_diferenca_gols :: "placar \<Rightarrow> placar \<Rightarrow> bool" where
  "verificar_vitoria_diferenca_gols palpite resultado =
     (let palp_mandante = dict_get palpite ''palpite_mandante'' 0;
          palp_visitante = dict_get palpite ''palpite_visitante'' 0;
          res_mandante = dict_get resultado ''gols_mandante'' 0;
          res_visitante = dict_get resultado ''gols_visitante'' 0;
          diff_palpite = palp_mandante - palp_visitante;
          diff_resultado = res_mandante - res_visitante
      in if palp_mandante > palp_visitante \<and> res_mandante > res_visitante
         then diff_palpite = diff_resultado
         else if palp_visitante > palp_mandante \<and> res_visitante > res_mandante
         then diff_palpite = diff_resultado
         else False)"

definition verificar_vitoria_soma_gols :: "placar \<Rightarrow> placar \<Rightarrow> bool" where
  "verificar_vitoria_soma_gols palpite resultado =
     (let palp_mandante = dict_get palpite ''palpite_mandante'' 0;
          palp_visitante = dict_get palpite ''palpite_visitante'' 0;
          res_mandante = dict_get resultado ''gols_mandante'' 0;
          res_visitante = dict_get resultado ''gols_visitante'' 0;
          soma_palpite = palp_mandante + palp_visitante;
          soma_resultado = res_mandante + res_visitante
      in if palp_mandante > palp_visitante \<and> res_mandante > res_visitante
         then soma_palpite = soma_resultado
         else if palp_visitante > palp_mandante \<and> res_visitante > res_mandante
         then soma_palpite = soma_resultado
         else False)"

definition verificar_apenas_vitoria :: "placar \<Rightarrow> placar \<Rightarrow> bool" where
  "verificar_apenas_vitoria palpite resultado =
     (let palp_mandante = dict_get palpite ''palpite_mandante'' 0;
          palp_visitante = dict_get palpite ''palpite_visitante'' 0;
          res_mandante = dict_get resultado ''gols_mandante'' 0;
          res_visitante = dict_get resultado ''gols_visitante'' 0
      in if palp_mandante > palp_visitante \<and> res_mandante > res_visitante then True
         else if palp_visitante > palp_mandante \<and> res_visitante > res_mandante then True
         else False)"

definition verificar_apenas_empate :: "placar \<Rightarrow> placar \<Rightarrow> bool" where
  "verificar_apenas_empate palpite resultado =
     (let palp_mandante = dict_get palpite ''palpite_mandante'' 0;
          palp_visitante = dict_get palpite ''palpite_visitante'' 0;
          res_mandante = dict_get resultado ''gols_mandante'' 0;
          res_visitante = dict_get resultado ''gols_visitante'' 0
      in palp_mandante = palp_visitante \<and> res_mandante = res_visitante)"

definition verificar_gols_um_time :: "placar \<Rightarrow> placar \<Rightarrow> bool" where
  "verificar_gols_um_time palpite resultado =
     (let palp_mandante = dict_get palpite ''palpite_mandante'' 0;
          palp_visitante = dict_get palpite ''palpite_visitante'' 0;
          res_mandante = dict_get resultado ''gols_mandante'' 0;
          res_visitante = dict_get resultado ''gols_visitante'' 0;
          acertou_mandante = (palp_mandante = res_mandante);
          acertou_visitante = (palp_visitante = res_visitante);
          acertou_um_time = (acertou_mandante \<noteq> acertou_visitante);
          nao_acertou_resultado =
            (if palp_mandante > palp_visitante \<and> res_mandante > res_visitante then False
             else if palp_visitante > palp_mandante \<and> res_visitante > res_mandante then False
             else if palp_mandante = palp_visitante \<and> res_mandante = res_visitante then False
             else True)
      in acertou_um_time \<and> nao_acertou_resultado)"

definition verificar_soma_gols :: "placar \<Rightarrow> placar \<Rightarrow> bool" where
  "verificar_soma_gols palpite resultado =
     (let palp_mandante = dict_get palpite ''palpite_mandante'' 0;
          palp_visitante = dict_get palpite ''palpite_visitante'' 0;
          res_mandante = dict_get resultado ''gols_mandante'' 0;
          res_visitante = dict_get resultado ''gols_visitante'' 0;
          soma_palpite = palp_mandante + palp_visitante;
          soma_resultado = res_mandante + res_visitante;
          acertou_soma = (soma_palpite = soma_resultado);
          nao_acertou_resultado =
            (if palp_mandante > palp_visitante \<and> res_mandante > res_visitante then False
             else if palp_visitante > palp_mandante \<and> res_visitante > res_mandante then False
             else if palp_mandante = palp_visitante \<and> res_mandante = res_visitante then False
             else True);
          nao_acertou_gols_individuais =
            (if palp_mandante = res_mandante \<or> palp_visitante = res_visitante then False
             else True)
      in acertou_soma \<and> nao_acertou_resultado \<and> nao_acertou_gols_individuais)"

definition verificar_resultado_inverso :: "placar \<Rightarrow> placar \<Rightarrow> bool" where
  "verificar_resultado_inverso palpite resultado =
     (let palp_mandante = dict_get palpite ''palpite_mandante'' 0;
          palp_visitante = dict_get palpite ''palpite_visitante'' 0;
          res_mandante = dict_get resultado ''gols_mandante'' 0;
          res_visitante = dict_get resultado ''gols_visitante'' 0
      in palp_mandante = res_visitante \<and> palp_visitante = res_mandante \<and>
         \<not> (palp_mandante = palp_visitante \<and> res_mandante = res_visitante))"

definition calcular_bonus_resultado_exato :: "int \<Rightarrow> py_error + rat" where
  "calcular_bonus_resultado_exato total_acertos_exatos =
     (if total_acertos_exatos \<le> 0 then Inr 0
      else py_truediv 1 (of_int total_acertos_exatos))"

text \<open>
  The rule configuration maps a rule's name to that rule's dictionary, of which the
  scoring reads the keys \<^verbatim>\<open>pontos\<close>, \<^verbatim>\<open>pontos_base\<close> and \<^verbatim>\<open>codigo\<close>; each may be absent.
\<close>

record regra =
  pontos :: "rat option"
  pontos_base :: "rat option"
  codigo :: "string option"

type_synonym regras = "string \<rightharpoonup> regra"

text \<open>\<^verbatim>\<open>regras.get(nome, {}).get('pontos', dflt)\<close>, and the same for the other two keys.\<close>

definition regra_pontos :: "regras \<Rightarrow> string \<Rightarrow> rat \<Rightarrow> rat" where
  "regra_pontos rs nome dflt =
     (case rs nome of None \<Rightarrow> dflt
      | Some rg \<Rightarrow> (case pontos rg of None \<Rightarrow> dflt | Some v \<Rightarrow> v))"

definition regra_pontos_base :: "regras \<Rightarrow> string \<Rightarrow> rat \<Rightarrow> rat" where
  "regra_pontos_base rs nome dflt =
     (case rs nome of None \<Rightarrow> dflt
      | Some rg \<Rightarrow> (case pontos_base rg of None \<Rightarrow> dflt | Some v \<Rightarrow> v))"

definition regra_codigo :: "regras \<Rightarrow> string \<Rightarrow> string \<Rightarrow> string" where
  "regra_codigo rs nome dflt =
     (case rs nome of None \<Rightarrow> dflt
      | Some rg \<Rightarrow> (case codigo rg of None \<Rightarrow> dflt | Some c \<Rightarrow> c))"

definition calcular_pontuacao ::
  "placar \<Rightarrow> placar \<Rightarrow> regras \<Rightarrow> int \<Rightarrow> py_error + (rat \<times> string)" where
  "calcular_pontuacao palpite resultado rs total_acertos_exatos =
     (if verificar_resultado_inverso palpite resultado
      then Inr (regra_pontos rs ''resultado_inverso'' (- 3),
                regra_codigo rs ''resultado_inverso'' ''RI'')
      else if verificar_resultado_exato palpite resultado
      then (case calcular_bonus_resultado_exato total_acertos_exatos of
              Inl e \<Rightarrow> Inl e
            | Inr bonus \<Rightarrow>
                Inr (regra_pontos_base rs ''resultado_exato'' 12 + bonus,
                     regra_codigo rs ''resultado_exato'' ''AR''))
      else if verificar_vitoria_gols_um_time palpite resultado
      then Inr (regra_pontos rs ''vitoria_gols_um_time'' 7,
                regra_codigo rs ''vitoria_gols_um_time'' ''VG'')
      else if verificar_vitoria_diferenca_gols palpite resultado
      then Inr (regra_pontos rs ''vitoria_diferenca_gols'' 6,
                regra_codigo rs ''vitoria_diferenca_gols'' ''VD'')
      else if verificar_vitoria_soma_gols palpite resultado
      then Inr (regra_pontos rs ''vitoria_soma_gols'' 6,
                regra_codigo rs ''vitoria_soma_gols'' ''VS'')
      else if verificar_apenas_vitoria palpite resultado
      then Inr (regra_pontos rs ''apenas_vitoria'' 5,
                regra_codigo rs ''apenas_vitoria'' ''AV'')
      else if verificar_apenas_empate palpite resultado
      then Inr (regra_pontos rs ''apenas_empate'' 5,
                regra_codigo rs ''apenas_empate'' ''AE'')
      else if verificar_gols_um_time palpite resultado
      then Inr (regra_pontos rs ''gols_um_time'' 2,
                regra_codigo rs ''gols_um_time'' ''AG'')
      else if verificar_soma_gols palpite resultado
      then Inr (regra_pontos rs ''soma_gols'' 1,
                regra_codigo rs ''soma_gols'' ''AS'')
      else Inr (0, ''NP''))"


text \<open>Example inputs: a score dictionary with both keys, and the empty configuration.\<close>

definition palpite_de :: "int \<Rightarrow> int \<Rightarrow> placar" where
  "palpite_de m v = [''palpite_mandante'' \<mapsto> m, ''palpite_visitante'' \<mapsto> v]"

definition resultado_de :: "int \<Rightarrow> int \<Rightarrow> placar" where
  "resultado_de m v = [''gols_mandante'' \<mapsto> m, ''gols_visitante'' \<mapsto> v]"

definition sem_regras :: regras where
  "sem_regras = Map.empty"


text \<open>
  The fixed order in which the rules are consulted, as a table: each rule's predicate,
  its name in the configuration and its built-in code. The table restates the order of
  the specification; \<open>primeira_regra\<close> is the first entry whose predicate holds.
\<close>

definition hierarquia :: "((placar \<Rightarrow> placar \<Rightarrow> bool) \<times> string \<times> string) list" where
  "hierarquia =
     [(verificar_resultado_inverso, ''resultado_inverso'', ''RI''),
      (verificar_resultado_exato, ''resultado_exato'', ''AR''),
      (verificar_vitoria_gols_um_time, ''vitoria_gols_um_time'', ''VG''),
      (verificar_vitoria_diferenca_gols, ''vitoria_diferenca_gols'', ''VD''),
      (verificar_vitoria_soma_gols, ''vitoria_soma_gols'', ''VS''),
      (verificar_apenas_vitoria, ''apenas_vitoria'', ''AV''),
      (verificar_apenas_empate, ''apenas_empate'', ''AE''),
      (verificar_gols_um_time, ''gols_um_time'', ''AG''),
      (verificar_soma_gols, ''soma_gols'', ''AS'')]"

definition primeira_regra :: "placar \<Rightarrow> placar \<Rightarrow> (string \<times> string) option" where
  "primeira_regra palpite resultado =
     map_option snd (find (\<lambda>(v, _). v palpite resultado) hierarquia)"





section \<open>Ingestion of predictions: \<^verbatim>\<open>src/scripts/importar_palpites.py\<close>\<close>

text \<open>
  A Python string is its list of code points. The dictionaries of the schedule and of the
  predictions become records; a key that the code reads with \<^verbatim>\<open>.get\<close> or tests with
  \<^verbatim>\<open>in\<close> is an option, \<open>None\<close> when the key is absent.
\<close>

type_synonym pystr = "nat list"

record jogo =
  j_id :: "pystr option"
  j_mandante :: "pystr option"
  j_visitante :: "pystr option"

record rodada_tabela =
  r_numero :: "int option"
  r_jogos :: "jogo list option"

text \<open>The schedule: the value of its key \<^verbatim>\<open>rodadas\<close>, \<open>None\<close> when the key is absent.\<close>

type_synonym tabela = "rodada_tabela list option"

text \<open>
  A prediction as the parser extracts it. The goal counts are \<open>None\<close> when the line had
  no score (the parser stores Python's \<^verbatim>\<open>None\<close>) or the key is absent.
\<close>

record palpite_extraido =
  p_mandante :: "pystr option"
  p_visitante :: "pystr option"
  p_gols_mandante :: "int option"
  p_gols_visitante :: "int option"
  p_tipo :: "pystr option"
  p_identificador :: "pystr option"

record palpite_validado =
  v_id :: pystr
  v_mandante :: pystr
  v_visitante :: pystr
  v_palpite_mandante :: int
  v_palpite_visitante :: int
  v_tipo :: "pystr option"
  v_identificador :: "pystr option"

text \<open>
  The error messages, by the text they are formatted from: the round number and the
  team names of the prediction (\<open>None\<close> where the message prints \<^verbatim>\<open>?\<close>).
\<close>

datatype erro_validacao =
    TabelaInvalida
  | RodadaNaoEncontrada int
  | PalpiteSemPlacar "pystr option" "pystr option"
  | JogoNaoEncontrado int "pystr option" "pystr option"

text \<open>
  The loop over the predictions, with the two lists it appends to. Indexing the matched
  game with \<^verbatim>\<open>['id']\<close>, \<^verbatim>\<open>['mandante']\<close> and \<^verbatim>\<open>['visitante']\<close> raises \<^verbatim>\<open>KeyError\<close> on an absent
  key.
\<close>

fun validar_laco ::
  "jogo list \<Rightarrow> int \<Rightarrow> palpite_extraido list \<Rightarrow> palpite_validado list \<Rightarrow>
   erro_validacao list \<Rightarrow> py_error + (palpite_validado list \<times> erro_validacao list)" where
  "validar_laco jogos_rodada rodada [] validados erros = Inr (validados, erros)"
| "validar_laco jogos_rodada rodada (p # ps) validados erros =
     (case (p_gols_mandante p, p_gols_visitante p) of
        (Some gm, Some gv) \<Rightarrow>
          (case find (\<lambda>jg. j_mandante jg = p_mandante p \<and> j_visitante jg = p_visitante p)
                  jogos_rodada of
             None \<Rightarrow>
               validar_laco jogos_rodada rodada ps validados
                 (erros @ [JogoNaoEncontrado rodada (p_mandante p) (p_visitante p)])
           | Some jg \<Rightarrow>
               (case (j_id jg, j_mandante jg, j_visitante jg) of
                  (Some i, Some m, Some v) \<Rightarrow>
                    validar_laco jogos_rodada rodada ps
                      (validados @
                         [\<lparr>v_id = i, v_mandante = m, v_visitante = v,
                           v_palpite_mandante = gm, v_palpite_visitante = gv,
                           v_tipo = p_tipo p, v_identificador = p_identificador p\<rparr>])
                      erros
                | _ \<Rightarrow> Inl KeyError))
      | _ \<Rightarrow>
          validar_laco jogos_rodada rodada ps validados
            (erros @ [PalpiteSemPlacar (p_mandante p) (p_visitante p)]))"

definition validar_palpites_contra_tabela ::
  "palpite_extraido list \<Rightarrow> int \<Rightarrow> tabela \<Rightarrow>
   py_error + (palpite_validado list \<times> erro_validacao list)" where
  "validar_palpites_contra_tabela palpites rodada tab =
     (case tab of
        None \<Rightarrow> Inr ([], [TabelaInvalida])
      | Some rodadas \<Rightarrow>
          (case find (\<lambda>r. r_numero r = Some rodada) rodadas of
             None \<Rightarrow> Inr ([], [RodadaNaoEncontrada rodada])
           | Some rodada_encontrada \<Rightarrow>
               validar_laco (case r_jogos rodada_encontrada of None \<Rightarrow> [] | Some js \<Rightarrow> js)
                 rodada palpites [] []))"

text \<open>
  The stored data of a participant: a list of entries, one per round, each with the
  time of the submission, the predictions and the extra bets. The other keys of the
  participant's dictionary are the extension of the record.
\<close>

record entrada =
  e_rodada :: "int option"
  e_data_palpite :: "pystr option"
  e_jogos :: "palpite_validado list option"
  e_apostas_extras :: "palpite_validado list option"

record dados_participante =
  d_palpites :: "entrada list option"

text \<open>
  The statements that update the round's entry once it is at hand: the predictions for
  the games of the new list are removed and the new list is appended; the extra bets
  likewise, by their identifier, when there are any.
\<close>

definition atualizar_entrada ::
  "palpite_validado list \<Rightarrow> palpite_validado list \<Rightarrow> entrada \<Rightarrow> entrada" where
  "atualizar_entrada palpites_validados apostas_extras entrada_rodada =
     (let e1 = (case e_jogos entrada_rodada of
                  None \<Rightarrow> entrada_rodada\<lparr>e_jogos := Some []\<rparr>
                | Some _ \<Rightarrow> entrada_rodada);
          ids_novos_palpites = set (map v_id palpites_validados);
          e2 = e1\<lparr>e_jogos :=
                  Some (filter (\<lambda>jg. v_id jg \<notin> ids_novos_palpites)
                          (case e_jogos e1 of None \<Rightarrow> [] | Some js \<Rightarrow> js)
                        @ palpites_validados)\<rparr>
      in if apostas_extras \<noteq> [] then
           (let e3 = (case e_apostas_extras e2 of
                        None \<Rightarrow> e2\<lparr>e_apostas_extras := Some []\<rparr>
                      | Some _ \<Rightarrow> e2);
                identificadores_novos =
                  set (map v_identificador
                         (filter (\<lambda>ae. v_identificador ae \<noteq> None) apostas_extras))
            in e3\<lparr>e_apostas_extras :=
                    Some (filter (\<lambda>ae. v_identificador ae \<notin> identificadores_novos)
                            (case e_apostas_extras e3 of None \<Rightarrow> [] | Some as \<Rightarrow> as)
                          @ apostas_extras)\<rparr>)
         else e2)"

text \<open>The entry found by the search is updated in place: the first one of the list.\<close>

fun substituir_primeira :: "('a \<Rightarrow> bool) \<Rightarrow> ('a \<Rightarrow> 'a) \<Rightarrow> 'a list \<Rightarrow> 'a list" where
  "substituir_primeira P f [] = []"
| "substituir_primeira P f (x # xs) =
     (if P x then f x # xs else x # substituir_primeira P f xs)"

text \<open>\<open>agora\<close> is the value of \<^verbatim>\<open>datetime.now().isoformat()\<close> at the call.\<close>

definition atualizar_palpites_participante ::
  "'a dados_participante_scheme \<Rightarrow> int \<Rightarrow> palpite_validado list \<Rightarrow>
   palpite_validado list \<Rightarrow> pystr \<Rightarrow> 'a dados_participante_scheme" where
  "atualizar_palpites_participante dados rodada palpites_validados apostas_extras agora =
     (let palpites = (case d_palpites dados of None \<Rightarrow> [] | Some es \<Rightarrow> es)
      in case find (\<lambda>e. e_rodada e = Some rodada) palpites of
           None \<Rightarrow>
             dados\<lparr>d_palpites := Some (palpites @
               [atualizar_entrada palpites_validados apostas_extras
                  \<lparr>e_rodada = Some rodada, e_data_palpite = Some agora,
                   e_jogos = Some [], e_apostas_extras = None\<rparr>])\<rparr>
         | Some _ \<Rightarrow>
             dados\<lparr>d_palpites := Some
               (substituir_primeira (\<lambda>e. e_rodada e = Some rodada)
                  (\<lambda>e. atualizar_entrada palpites_validados apostas_extras
                         (e\<lparr>e_data_palpite := Some agora\<rparr>))
                  palpites)\<rparr>)"

text \<open>The predictions stored for a round: those of the first entry of that round.\<close>

definition jogos_armazenados :: "'a dados_participante_scheme \<Rightarrow> int \<Rightarrow> palpite_validado list" where
  "jogos_armazenados dados rodada =
     (case find (\<lambda>e. e_rodada e = Some rodada)
             (case d_palpites dados of None \<Rightarrow> [] | Some es \<Rightarrow> es) of
        None \<Rightarrow> []
      | Some e \<Rightarrow> (case e_jogos e of None \<Rightarrow> [] | Some js \<Rightarrow> js))"

text \<open>The entries of the other rounds, in their order.\<close>

definition outras_rodadas :: "'a dados_participante_scheme \<Rightarrow> int \<Rightarrow> entrada list" where
  "outras_rodadas dados rodada =
     filter (\<lambda>e. e_rodada e \<noteq> Some rodada)
       (case d_palpites dados of None \<Rightarrow> [] | Some es \<Rightarrow> es)"


text \<open>
  The vocabulary of the statements about the validation: the game a prediction matches
  (the first of the round with the same home and away names), the predictions that are
  rejected, the error a rejected prediction produces, the record an accepted one
  produces, and the games that carry the three keys the validation indexes.
\<close>

definition jogo_correspondente :: "jogo list \<Rightarrow> palpite_extraido \<Rightarrow> jogo option" where
  "jogo_correspondente js p =
     find (\<lambda>jg. j_mandante jg = p_mandante p \<and> j_visitante jg = p_visitante p) js"

definition rejeitado :: "jogo list \<Rightarrow> palpite_extraido \<Rightarrow> bool" where
  "rejeitado js p \<longleftrightarrow>
     p_gols_mandante p = None \<or> p_gols_visitante p = None \<or> jogo_correspondente js p = None"

definition erro_de :: "int \<Rightarrow> palpite_extraido \<Rightarrow> erro_validacao" where
  "erro_de rodada p =
     (if p_gols_mandante p = None \<or> p_gols_visitante p = None
      then PalpiteSemPlacar (p_mandante p) (p_visitante p)
      else JogoNaoEncontrado rodada (p_mandante p) (p_visitante p))"

definition validado_de :: "jogo list \<Rightarrow> palpite_extraido \<Rightarrow> palpite_validado" where
  "validado_de js p =
     (let jg = the (jogo_correspondente js p)
      in \<lparr>v_id = the (j_id jg), v_mandante = the (j_mandante jg),
          v_visitante = the (j_visitante jg),
          v_palpite_mandante = the (p_gols_mandante p),
          v_palpite_visitante = the (p_gols_visitante p),
          v_tipo = p_tipo p, v_identificador = p_identificador p\<rparr>)"

definition jogo_completo :: "jogo \<Rightarrow> bool" where
  "jogo_completo jg \<longleftrightarrow> j_id jg \<noteq> None \<and> j_mandante jg \<noteq> None \<and> j_visitante jg \<noteq> None"

text \<open>
  Example data. The teams are named by one letter (\<open>A\<close> is the code point 65), the games
  \<open>g1\<close>, \<open>g2\<close>, \<open>g3\<close>. Round 1 holds the game E x F, round 2 the games A x B and C x D.
\<close>

definition jogo_de :: "pystr \<Rightarrow> pystr \<Rightarrow> pystr \<Rightarrow> jogo" where
  "jogo_de i m v = \<lparr>j_id = Some i, j_mandante = Some m, j_visitante = Some v\<rparr>"

definition tabela_exemplo :: tabela where
  "tabela_exemplo =
     Some [\<lparr>r_numero = Some 1, r_jogos = Some [jogo_de [103, 49] [69] [70]]\<rparr>,
           \<lparr>r_numero = Some 2,
            r_jogos = Some [jogo_de [103, 50] [65] [66], jogo_de [103, 51] [67] [68]]\<rparr>]"

definition extraido_de :: "pystr \<Rightarrow> pystr \<Rightarrow> int option \<Rightarrow> int option \<Rightarrow> palpite_extraido" where
  "extraido_de m v gm gv =
     \<lparr>p_mandante = Some m, p_visitante = Some v, p_gols_mandante = gm,
      p_gols_visitante = gv, p_tipo = None, p_identificador = None\<rparr>"

definition validado_ex :: "pystr \<Rightarrow> pystr \<Rightarrow> pystr \<Rightarrow> int \<Rightarrow> int \<Rightarrow> palpite_validado" where
  "validado_ex i m v gm gv =
     \<lparr>v_id = i, v_mandante = m, v_visitante = v, v_palpite_mandante = gm,
      v_palpite_visitante = gv, v_tipo = None, v_identificador = None\<rparr>"

definition dados_exemplo :: dados_participante where
  "dados_exemplo =
     \<lparr>d_palpites = Some
        [\<lparr>e_rodada = Some 1, e_data_palpite = Some [49],
          e_jogos = Some [validado_ex [103, 49] [69] [70] 1 0], e_apostas_extras = None\<rparr>,
         \<lparr>e_rodada = Some 2, e_data_palpite = Some [50],
          e_jogos = Some [validado_ex [103, 50] [65] [66] 2 1,
                          validado_ex [103, 51] [67] [68] 0 0],
          e_apostas_extras = None\<rparr>]\<rparr>"


section \<open>Names: \<^verbatim>\<open>src/utils/normalizacao.py\<close>\<close>

text \<open>
  The functions of Python's \<^verbatim>\<open>str\<close>, \<^verbatim>\<open>re\<close> and \<^verbatim>\<open>unicodedata\<close> that the normalisation calls,
  on lists of code points. The tables of the Unicode database (canonical decomposition,
  general category, case mappings) are written out for the code points U+0000 to U+00FF
  and the combining marks U+0300 to U+036F, and for the code points the upper-casing of
  these leads to (U+0178, U+0399, U+039C); every other code point is left as it is, so
  the statements about normalisation below are about strings over the tabulated code
  points.
\<close>

text \<open>\<^verbatim>\<open>str.isspace\<close> on one character; the class \<^verbatim>\<open>\s\<close> of \<^verbatim>\<open>re\<close> is the same set.\<close>

definition py_isspace :: "nat \<Rightarrow> bool" where
  "py_isspace c \<longleftrightarrow>
     (9 \<le> c \<and> c \<le> 13) \<or> (28 \<le> c \<and> c \<le> 32) \<or> c = 133 \<or> c = 160 \<or> c = 5760 \<or>
     (8192 \<le> c \<and> c \<le> 8202) \<or> c = 8232 \<or> c = 8233 \<or> c = 8239 \<or> c = 8287 \<or>
     c = 12288"

text \<open>\<^verbatim>\<open>s.strip()\<close> and \<^verbatim>\<open>s.strip('-')\<close>: the characters of a class are dropped at both ends.\<close>

definition str_strip :: "(nat \<Rightarrow> bool) \<Rightarrow> pystr \<Rightarrow> pystr" where
  "str_strip P s = rev (dropWhile P (rev (dropWhile P s)))"

text \<open>The canonical decompositions, as \<^verbatim>\<open>unicodedata.normalize('NFD', c)\<close> gives them.\<close>

definition decomposicoes :: "(nat \<times> nat list) list" where
  "decomposicoes =
     [(192, [65, 768]), (193, [65, 769]), (194, [65, 770]), (195, [65, 771]),
      (196, [65, 776]), (197, [65, 778]), (199, [67, 807]), (200, [69, 768]),
      (201, [69, 769]), (202, [69, 770]), (203, [69, 776]), (204, [73, 768]),
      (205, [73, 769]), (206, [73, 770]), (207, [73, 776]), (209, [78, 771]),
      (210, [79, 768]), (211, [79, 769]), (212, [79, 770]), (213, [79, 771]),
      (214, [79, 776]), (217, [85, 768]), (218, [85, 769]), (219, [85, 770]),
      (220, [85, 776]), (221, [89, 769]), (224, [97, 768]), (225, [97, 769]),
      (226, [97, 770]), (227, [97, 771]), (228, [97, 776]), (229, [97, 778]),
      (231, [99, 807]), (232, [101, 768]), (233, [101, 769]), (234, [101, 770]),
      (235, [101, 776]), (236, [105, 768]), (237, [105, 769]), (238, [105, 770]),
      (239, [105, 776]), (241, [110, 771]), (242, [111, 768]), (243, [111, 769]),
      (244, [111, 770]), (245, [111, 771]), (246, [111, 776]), (249, [117, 768]),
      (250, [117, 769]), (251, [117, 770]), (252, [117, 776]), (253, [121, 769]),
      (255, [121, 776]), (376, [89, 776]),
      (832, [768]), (833, [769]), (835, [787]), (836, [776, 769])]"

definition decompor :: "nat \<Rightarrow> nat list" where
  "decompor c = (case map_of decomposicoes c of None \<Rightarrow> [c] | Some d \<Rightarrow> d)"

text \<open>
  \<^verbatim>\<open>unicodedata.normalize('NFD', s)\<close>. The canonical reordering of adjacent combining marks
  is left out: it permutes marks only, and the next statement of the normalisation
  deletes every mark.
\<close>

definition normalize_NFD :: "pystr \<Rightarrow> pystr" where
  "normalize_NFD s = concat (map decompor s)"

text \<open>\<^verbatim>\<open>unicodedata.category(c) == 'Mn'\<close>.\<close>

definition categoria_Mn :: "nat \<Rightarrow> bool" where
  "categoria_Mn c \<longleftrightarrow> 768 \<le> c \<and> c \<le> 879"

definition lower_char :: "nat \<Rightarrow> nat" where
  "lower_char c =
     (if (65 \<le> c \<and> c \<le> 90) \<or> (192 \<le> c \<and> c \<le> 214) \<or> (216 \<le> c \<and> c \<le> 222) then c + 32
      else if c = 376 then 255
      else if c = 921 then 953
      else if c = 924 then 956
      else c)"

definition str_lower :: "pystr \<Rightarrow> pystr" where
  "str_lower s = map lower_char s"

text \<open>\<^verbatim>\<open>str.upper\<close> maps one character to a string: U+00DF becomes \<^verbatim>\<open>SS\<close>.\<close>

definition upper_char :: "nat \<Rightarrow> nat list" where
  "upper_char c =
     (if (97 \<le> c \<and> c \<le> 122) \<or> (224 \<le> c \<and> c \<le> 246) \<or> (248 \<le> c \<and> c \<le> 254) then [c - 32]
      else if c = 181 then [924]
      else if c = 223 then [83, 83]
      else if c = 255 then [376]
      else if c = 837 then [921]
      else [c])"

definition str_upper :: "pystr \<Rightarrow> pystr" where
  "str_upper s = concat (map upper_char s)"

text \<open>\<^verbatim>\<open>s.replace(a, b)\<close> for one-character strings \<open>a\<close> and \<open>b\<close>.\<close>

definition str_replace :: "nat \<Rightarrow> nat \<Rightarrow> pystr \<Rightarrow> pystr" where
  "str_replace a b s = map (\<lambda>c. if c = a then b else c) s"

text \<open>
  \<^verbatim>\<open>re.sub(r'C+', rep, s)\<close> for a character class \<open>C\<close>: every maximal run of characters of
  the class is replaced by \<open>rep\<close>.
\<close>

function re_sub_runs :: "(nat \<Rightarrow> bool) \<Rightarrow> pystr \<Rightarrow> pystr \<Rightarrow> pystr" where
  "re_sub_runs P rep [] = []"
| "re_sub_runs P rep (c # cs) =
     (if P c then rep @ re_sub_runs P rep (dropWhile P cs) else c # re_sub_runs P rep cs)"
  by pat_completeness auto
termination
  by (relation "measure (\<lambda>(P, rep, s). length s)")
    (auto simp: less_Suc_eq_le length_dropWhile_le)

text \<open>The characters of the class \<^verbatim>\<open>[a-z0-9\-]\<close>.\<close>

definition permitido :: "nat \<Rightarrow> bool" where
  "permitido c \<longleftrightarrow> (97 \<le> c \<and> c \<le> 122) \<or> (48 \<le> c \<and> c \<le> 57) \<or> c = 45"

definition normalizar_nome_time :: "pystr \<Rightarrow> pystr" where
  "normalizar_nome_time nome =
     (if nome = [] then []
      else
        (let n1 = str_strip py_isspace nome;
             n2 = normalize_NFD n1;
             n3 = filter (\<lambda>c. \<not> categoria_Mn c) n2;
             n4 = str_lower n3;
             n5 = str_replace 47 45 n4;
             n6 = re_sub_runs py_isspace [32] n5;
             n7 = str_replace 32 45 n6;
             n8 = filter permitido n7;
             n9 = re_sub_runs (\<lambda>c. c = 45) [45] n8
         in str_strip (\<lambda>c. c = 45) n9))"

text \<open>
  \<^verbatim>\<open>Levenshtein.distance\<close>, of the library the module imports: the number of insertions,
  deletions and substitutions of one character that turn one string into the other.
\<close>

fun distance :: "pystr \<Rightarrow> pystr \<Rightarrow> nat" where
  "distance [] ys = length ys"
| "distance (x # xs) [] = Suc (length xs)"
| "distance (x # xs) (y # ys) =
     (if x = y then distance xs ys
      else Suc (min (distance xs ys) (min (distance xs (y # ys)) (distance (x # xs) ys))))"

text \<open>
  The loop of \<^verbatim>\<open>encontrar_time_similar\<close> with its two variables; \<^verbatim>\<open>float('inf')\<close> is the
  infinite extended natural number.
\<close>

fun encontrar_laco :: "pystr \<Rightarrow> int \<Rightarrow> pystr list \<Rightarrow> pystr option \<Rightarrow> enat \<Rightarrow> pystr option" where
  "encontrar_laco nome_normalizado limite_distancia [] melhor_match menor_distancia =
     melhor_match"
| "encontrar_laco nome_normalizado limite_distancia (time_valido # ts) melhor_match
     menor_distancia =
     (let time_normalizado = normalizar_nome_time time_valido;
          dist = distance nome_normalizado time_normalizado
      in if dist = 0 then Some time_valido
         else if int dist \<le> limite_distancia \<and> enat dist < menor_distancia
         then encontrar_laco nome_normalizado limite_distancia ts (Some time_valido) (enat dist)
         else encontrar_laco nome_normalizado limite_distancia ts melhor_match
                menor_distancia)"

definition encontrar_time_similar :: "pystr \<Rightarrow> pystr list \<Rightarrow> int \<Rightarrow> pystr option" where
  "encontrar_time_similar nome times_validos limite_distancia =
     (if nome = [] \<or> times_validos = [] then None
      else encontrar_laco (normalizar_nome_time nome) limite_distancia times_validos
             None \<infinity>)"

text \<open>
  The first element of a list at which a measure is least; the specification's
  "minimum-distance candidate, ties broken by first occurrence".
\<close>

definition primeiro_minimo :: "('a \<Rightarrow> nat) \<Rightarrow> 'a list \<Rightarrow> 'a option" where
  "primeiro_minimo f xs =
     (if xs = [] then None else find (\<lambda>x. f x = Min (f ` set xs)) xs)"


section \<open>Round inference: \<^verbatim>\<open>inferir_rodada\<close> of \<^verbatim>\<open>src/utils/parser.py\<close>\<close>

text \<open>
  The set of normalised team names of a list of dictionaries with the keys \<^verbatim>\<open>mandante\<close>
  and \<^verbatim>\<open>visitante\<close>: a name is added when its key is present and its string is not empty.
\<close>

definition adicionar_time :: "pystr option \<Rightarrow> pystr set \<Rightarrow> pystr set" where
  "adicionar_time nome conjunto =
     (case nome of
        None \<Rightarrow> conjunto
      | Some n \<Rightarrow> if n \<noteq> [] then insert (normalizar_nome_time n) conjunto else conjunto)"

fun extrair_times_palpites :: "palpite_extraido list \<Rightarrow> pystr set \<Rightarrow> pystr set" where
  "extrair_times_palpites [] times_palpites = times_palpites"
| "extrair_times_palpites (palpite # ps) times_palpites =
     extrair_times_palpites ps
       (adicionar_time (p_visitante palpite)
          (adicionar_time (p_mandante palpite) times_palpites))"

fun extrair_times_rodada :: "jogo list \<Rightarrow> pystr set \<Rightarrow> pystr set" where
  "extrair_times_rodada [] times_rodada = times_rodada"
| "extrair_times_rodada (jg # js) times_rodada =
     extrair_times_rodada js
       (adicionar_time (j_visitante jg) (adicionar_time (j_mandante jg) times_rodada))"

text \<open>The loop over the rounds, with the best round and the best score so far.\<close>

fun inferir_laco ::
  "pystr set \<Rightarrow> rodada_tabela list \<Rightarrow> int option \<Rightarrow> rat \<Rightarrow> int option" where
  "inferir_laco times_palpites [] melhor_rodada melhor_score =
     (if melhor_score \<ge> 1 / 2 then melhor_rodada else None)"
| "inferir_laco times_palpites (rodada # rs) melhor_rodada melhor_score =
     (case (r_numero rodada, r_jogos rodada) of
        (Some numero, Some jogos) \<Rightarrow>
          (let times_rodada = extrair_times_rodada jogos {}
           in if times_rodada = {}
              then inferir_laco times_palpites rs melhor_rodada melhor_score
              else
                (let correspondencias = card (times_palpites \<inter> times_rodada);
                     score = (if times_palpites \<noteq> {}
                              then of_nat correspondencias / of_nat (card times_palpites)
                              else 0)
                 in if score = 1 then Some numero
                    else if score > melhor_score
                    then inferir_laco times_palpites rs (Some numero) score
                    else inferir_laco times_palpites rs melhor_rodada melhor_score))
      | _ \<Rightarrow> inferir_laco times_palpites rs melhor_rodada melhor_score)"

definition inferir_rodada :: "palpite_extraido list \<Rightarrow> tabela \<Rightarrow> int option" where
  "inferir_rodada palpites tab =
     (if palpites = [] then None
      else
        (case tab of
           None \<Rightarrow> None
         | Some rodadas \<Rightarrow>
             (let times_palpites = extrair_times_palpites palpites {}
              in if times_palpites = {} then None
                 else inferir_laco times_palpites rodadas None 0)))"

text \<open>
  The vocabulary of the statement about the inference: the rounds that carry a number
  and a list of games, the team set \<open>T\<close> of a round, its score \<open>|S \<inter> T| / |S|\<close> and the
  first element of a list at which a measure is greatest.
\<close>

definition rodada_valida :: "rodada_tabela \<Rightarrow> bool" where
  "rodada_valida r \<longleftrightarrow> r_numero r \<noteq> None \<and> r_jogos r \<noteq> None"

definition times_da_rodada :: "rodada_tabela \<Rightarrow> pystr set" where
  "times_da_rodada r =
     extrair_times_rodada (case r_jogos r of None \<Rightarrow> [] | Some js \<Rightarrow> js) {}"

definition score_rodada :: "pystr set \<Rightarrow> rodada_tabela \<Rightarrow> rat" where
  "score_rodada S r =
     (if S = {} then 0 else of_nat (card (S \<inter> times_da_rodada r)) / of_nat (card S))"

definition primeiro_maximo :: "('a \<Rightarrow> rat) \<Rightarrow> 'a list \<Rightarrow> 'a option" where
  "primeiro_maximo f xs =
     (if xs = [] then None else find (\<lambda>x. f x = Max (f ` set xs)) xs)"

definition rodadas_da_tabela :: "tabela \<Rightarrow> rodada_tabela list" where
  "rodadas_da_tabela tab = (case tab of None \<Rightarrow> [] | Some rs \<Rightarrow> rs)"








section \<open>Properties of the scoring engine\<close>

lemma calcular_bonus_resultado_exato_Inr:
  "calcular_bonus_resultado_exato n = Inr (if n \<le> 0 then 0 else 1 / of_int n)"
  by (simp add: calcular_bonus_resultado_exato_def py_truediv_def)

lemma dict_get_palpite_de [simp]:
  "dict_get (palpite_de m v) ''palpite_mandante'' d = m"
  "dict_get (palpite_de m v) ''palpite_visitante'' d = v"
  by (simp_all add: dict_get_def palpite_de_def)

lemma dict_get_resultado_de [simp]:
  "dict_get (resultado_de m v) ''gols_mandante'' d = m"
  "dict_get (resultado_de m v) ''gols_visitante'' d = v"
  by (simp_all add: dict_get_def resultado_de_def)

lemma verificar_resultado_exato_de [simp]:
  "verificar_resultado_exato (palpite_de a b) (resultado_de c d) \<longleftrightarrow> a = c \<and> b = d"
  by (simp add: verificar_resultado_exato_def palpite_de_def resultado_de_def)








text \<open>
  C1, as the claim states it, fails: the predicates of the rules are not mutually
  exclusive. The prediction 2x1 against the result 1x2 satisfies the predicate of the
  inverted score and the predicate of the total goals, two entries of the hierarchy.
\<close>

theorem regras_nao_exclusivas_counterexample:
  "verificar_resultado_inverso (palpite_de 2 1) (resultado_de 1 2) \<and>
   verificar_soma_gols (palpite_de 2 1) (resultado_de 1 2) \<and>
   length (filter (\<lambda>(v, _). v (palpite_de 2 1) (resultado_de 1 2)) hierarquia) = 2"
  by (simp add: hierarquia_def verificar_resultado_inverso_def verificar_soma_gols_def
      verificar_vitoria_gols_um_time_def verificar_vitoria_diferenca_gols_def
      verificar_vitoria_soma_gols_def verificar_apenas_vitoria_def
      verificar_apenas_empate_def verificar_gols_um_time_def)

text \<open>
  C1, amended. Several predicates may hold at once; \<^verbatim>\<open>calcular_pontuacao\<close> returns the code
  of the first rule whose predicate holds, in the fixed order RI, AR, VG, VD, VS, AV, AE,
  AG, AS (the configured code of that rule, the built-in one when none is configured),
  and \<^verbatim>\<open>NP\<close> when no predicate holds.
\<close>

theorem calcular_pontuacao_primeira_regra:
  "\<exists>pts. calcular_pontuacao palpite resultado rs n =
     Inr (pts, case primeira_regra palpite resultado of
                 None \<Rightarrow> ''NP''
               | Some (nome, cod) \<Rightarrow> regra_codigo rs nome cod)"
  by (simp add: calcular_pontuacao_def primeira_regra_def hierarquia_def
      calcular_bonus_resultado_exato_Inr)

theorem calcular_pontuacao_primeira_regra_witness:
  "(\<exists>pts. calcular_pontuacao (palpite_de 2 1) (resultado_de 1 2) sem_regras 1 = Inr (pts, ''RI'')) \<and>
   (\<exists>pts. calcular_pontuacao (palpite_de 2 1) (resultado_de 3 1) sem_regras 1 = Inr (pts, ''VG'')) \<and>
   (\<exists>pts. calcular_pontuacao (palpite_de 3 0) (resultado_de 0 1) sem_regras 1 = Inr (pts, ''NP''))"
proof -
  have a: "primeira_regra (palpite_de 2 1) (resultado_de 1 2) = Some (''resultado_inverso'', ''RI'')"
    by (simp add: primeira_regra_def hierarquia_def verificar_resultado_inverso_def)
  have b: "primeira_regra (palpite_de 2 1) (resultado_de 3 1) = Some (''vitoria_gols_um_time'', ''VG'')"
    by (simp add: primeira_regra_def hierarquia_def verificar_resultado_inverso_def
        verificar_vitoria_gols_um_time_def)
  have c: "primeira_regra (palpite_de 3 0) (resultado_de 0 1) = None"
    by (simp add: primeira_regra_def hierarquia_def verificar_resultado_inverso_def
        verificar_soma_gols_def
        verificar_vitoria_gols_um_time_def verificar_vitoria_diferenca_gols_def
        verificar_vitoria_soma_gols_def verificar_apenas_vitoria_def
        verificar_apenas_empate_def verificar_gols_um_time_def)
  show ?thesis
    using calcular_pontuacao_primeira_regra [of "palpite_de 2 1" "resultado_de 1 2" sem_regras 1]
      calcular_pontuacao_primeira_regra [of "palpite_de 2 1" "resultado_de 3 1" sem_regras 1]
      calcular_pontuacao_primeira_regra [of "palpite_de 3 0" "resultado_de 0 1" sem_regras 1]
    by (simp add: a b c regra_codigo_def sem_regras_def)
qed





section \<open>Properties of the validation against the schedule\<close>

lemma jogo_correspondente_completo:
  assumes "list_all jogo_completo js" and "jogo_correspondente js p = Some jg"
  shows "jogo_completo jg"
  using assms by (auto simp: jogo_correspondente_def list_all_iff find_Some_iff)

text \<open>The loop, for any two lists it starts from: induction on the predictions.\<close>

lemma validar_laco_spec:
  assumes "list_all jogo_completo js"
  shows "validar_laco js rodada ps vs es =
           Inr (vs @ map (validado_de js) (filter (\<lambda>p. \<not> rejeitado js p) ps),
                es @ map (erro_de rodada) (filter (rejeitado js) ps))"
proof (induction ps arbitrary: vs es)
  case Nil
  then show ?case by simp
next
  case (Cons p ps)
  show ?case
  proof (cases "p_gols_mandante p = None \<or> p_gols_visitante p = None")
    case True
    then show ?thesis using Cons.IH
      by (auto simp: rejeitado_def erro_de_def split: option.splits)
  next
    case False
    then obtain gm gv where g: "p_gols_mandante p = Some gm" "p_gols_visitante p = Some gv"
      by auto
    show ?thesis
    proof (cases "jogo_correspondente js p")
      case None
      then show ?thesis using g Cons.IH
        by (simp add: rejeitado_def erro_de_def jogo_correspondente_def)
    next
      case (Some jg)
      from jogo_correspondente_completo [OF assms Some]
      obtain i m v where c: "j_id jg = Some i" "j_mandante jg = Some m" "j_visitante jg = Some v"
        by (auto simp: jogo_completo_def)
      have "\<not> rejeitado js p" using g Some by (simp add: rejeitado_def)
      moreover have "validado_de js p = \<lparr>v_id = i, v_mandante = m, v_visitante = v,
                           v_palpite_mandante = gm, v_palpite_visitante = gv,
                           v_tipo = p_tipo p, v_identificador = p_identificador p\<rparr>"
        using g Some c by (simp add: validado_de_def)
      ultimately show ?thesis using g Some c Cons.IH
        by (simp add: jogo_correspondente_def)
    qed
  qed
qed

text \<open>
  C6. When the schedule has no round of the target number (or no rounds at all) the
  result is the empty list of validated predictions with one error. Otherwise, for a
  round whose games carry an id and both team names: every prediction with a missing
  goal count, or with no game of the round whose home and away names both equal its own,
  contributes one error and no validated prediction; every other prediction contributes,
  in the order of the input, one validated prediction with the id and the team names of
  the game it matches and its own goal counts.
\<close>

theorem validar_palpites_contra_tabela_spec:
  "(tab = None \<or> (\<exists>rs. tab = Some rs \<and> find (\<lambda>r. r_numero r = Some rodada) rs = None)
      \<longrightarrow> (\<exists>e. validar_palpites_contra_tabela ps rodada tab = Inr ([], [e]))) \<and>
   (tab = Some rs \<and> find (\<lambda>r. r_numero r = Some rodada) rs = Some rd \<and>
    js = (case r_jogos rd of None \<Rightarrow> [] | Some l \<Rightarrow> l) \<and> list_all jogo_completo js
      \<longrightarrow> validar_palpites_contra_tabela ps rodada tab =
            Inr (map (validado_de js) (filter (\<lambda>p. \<not> rejeitado js p) ps),
                 map (erro_de rodada) (filter (rejeitado js) ps)))"
  by (auto simp: validar_palpites_contra_tabela_def validar_laco_spec)

theorem validar_palpites_contra_tabela_spec_witness:
  "(\<exists>e. validar_palpites_contra_tabela
          [extraido_de [65] [66] (Some 2) (Some 1)] 9 tabela_exemplo = Inr ([], [e])) \<and>
   validar_palpites_contra_tabela
     [extraido_de [65] [66] (Some 2) (Some 1), extraido_de [67] [68] None None,
      extraido_de [66] [65] (Some 1) (Some 0)] 2 tabela_exemplo =
     Inr ([validado_ex [103, 50] [65] [66] 2 1],
          [PalpiteSemPlacar (Some [67]) (Some [68]),
           JogoNaoEncontrado 2 (Some [66]) (Some [65])])"
proof -
  let ?rs = "[\<lparr>r_numero = Some 1, r_jogos = Some [jogo_de [103, 49] [69] [70]]\<rparr>,
           \<lparr>r_numero = Some 2,
            r_jogos = Some [jogo_de [103, 50] [65] [66], jogo_de [103, 51] [67] [68]]\<rparr>]"
  let ?js = "[jogo_de [103, 50] [65] [66], jogo_de [103, 51] [67] [68]]"
  let ?ps = "[extraido_de [65] [66] (Some 2) (Some 1), extraido_de [67] [68] None None,
      extraido_de [66] [65] (Some 1) (Some 0)]"
  have a: "tabela_exemplo = None \<or>
      (\<exists>rs. tabela_exemplo = Some rs \<and> find (\<lambda>r. r_numero r = Some 9) rs = None)"
    by (simp add: tabela_exemplo_def)
  have b: "tabela_exemplo = Some ?rs \<and>
      find (\<lambda>r. r_numero r = Some 2) ?rs =
        Some \<lparr>r_numero = Some 2, r_jogos = Some ?js\<rparr> \<and>
      ?js = (case r_jogos \<lparr>r_numero = Some 2, r_jogos = Some ?js\<rparr> of
               None \<Rightarrow> [] | Some l \<Rightarrow> l) \<and>
      list_all jogo_completo ?js"
    by (simp add: tabela_exemplo_def jogo_completo_def jogo_de_def)
  have c: "map (validado_de ?js) (filter (\<lambda>p. \<not> rejeitado ?js p) ?ps) =
        [validado_ex [103, 50] [65] [66] 2 1]"
    by (simp add: rejeitado_def jogo_correspondente_def jogo_de_def extraido_de_def
        validado_de_def validado_ex_def)
  have d: "map (erro_de 2) (filter (rejeitado ?js) ?ps) =
        [PalpiteSemPlacar (Some [67]) (Some [68]),
           JogoNaoEncontrado 2 (Some [66]) (Some [65])]"
    by (simp add: rejeitado_def jogo_correspondente_def jogo_de_def extraido_de_def
        erro_de_def)
  from validar_palpites_contra_tabela_spec [where tab = tabela_exemplo and rodada = 9
      and ps = "[extraido_de [65] [66] (Some 2) (Some 1)]"] a
  have "\<exists>e. validar_palpites_contra_tabela
          [extraido_de [65] [66] (Some 2) (Some 1)] 9 tabela_exemplo = Inr ([], [e])"
    by blast
  moreover from validar_palpites_contra_tabela_spec [where tab = tabela_exemplo
      and rodada = 2 and ps = ?ps and rs = ?rs and js = ?js
      and rd = "\<lparr>r_numero = Some 2, r_jogos = Some ?js\<rparr>"] b
  have "validar_palpites_contra_tabela ?ps 2 tabela_exemplo =
     Inr (map (validado_de ?js) (filter (\<lambda>p. \<not> rejeitado ?js p) ?ps),
          map (erro_de 2) (filter (rejeitado ?js) ?ps))"
    by blast
  ultimately show ?thesis by (simp only: c d) 
qed


section \<open>Properties of the update of the stored predictions\<close>

lemma atualizar_entrada_rodada [simp]:
  "e_rodada (atualizar_entrada pvs extras e) = e_rodada e"
  by (simp add: atualizar_entrada_def Let_def split: option.splits)

lemma atualizar_entrada_jogos:
  "e_jogos (atualizar_entrada pvs extras e) =
     Some (filter (\<lambda>jg. v_id jg \<notin> set (map v_id pvs))
             (case e_jogos e of None \<Rightarrow> [] | Some js \<Rightarrow> js) @ pvs)"
  by (simp add: atualizar_entrada_def Let_def split: option.splits)

lemma find_substituir_primeira:
  assumes "\<And>x. P x \<Longrightarrow> P (f x)"
  shows "find P (substituir_primeira P f xs) = map_option f (find P xs)"
  using assms by (induction xs) auto

lemma find_outro_substituir_primeira:
  assumes "\<And>x. P x \<Longrightarrow> \<not> Q x \<and> \<not> Q (f x)"
  shows "find Q (substituir_primeira P f xs) = find Q xs"
  using assms by (induction xs) auto

lemma filter_substituir_primeira:
  assumes "\<And>x. P x \<Longrightarrow> P (f x)"
  shows "filter (\<lambda>x. \<not> P x) (substituir_primeira P f xs) = filter (\<lambda>x. \<not> P x) xs"
  using assms by (induction xs) auto

lemma find_append_None: "find P xs = None \<Longrightarrow> find P (xs @ ys) = find P ys"
  by (induction xs) (auto split: if_splits)

lemma find_append_Some: "find P xs = Some x \<Longrightarrow> find P (xs @ ys) = Some x"
  by (induction xs) (auto split: if_splits)

lemma jogos_armazenados_atualizar:
  "jogos_armazenados (atualizar_palpites_participante dados rodada pvs extras agora) rodada =
     filter (\<lambda>jg. v_id jg \<notin> set (map v_id pvs)) (jogos_armazenados dados rodada) @ pvs"
proof (cases "find (\<lambda>e. e_rodada e = Some rodada)
                (case d_palpites dados of None \<Rightarrow> [] | Some es \<Rightarrow> es)")
  case None
  then show ?thesis
    by (simp add: jogos_armazenados_def atualizar_palpites_participante_def Let_def
        find_append_None atualizar_entrada_jogos)
next
  case (Some e)
  then show ?thesis
    by (simp add: jogos_armazenados_def atualizar_palpites_participante_def Let_def
        find_substituir_primeira atualizar_entrada_jogos)
qed

lemma jogos_armazenados_outra:
  assumes "r \<noteq> rodada"
  shows "jogos_armazenados (atualizar_palpites_participante dados rodada pvs extras agora) r =
     jogos_armazenados dados r"
proof (cases "find (\<lambda>e. e_rodada e = Some rodada)
                (case d_palpites dados of None \<Rightarrow> [] | Some es \<Rightarrow> es)")
  case None
  show ?thesis
  proof (cases "find (\<lambda>e. e_rodada e = Some r)
                  (case d_palpites dados of None \<Rightarrow> [] | Some es \<Rightarrow> es)")
    case n: None
    then show ?thesis using None assms
      by (simp add: jogos_armazenados_def atualizar_palpites_participante_def Let_def
          find_append_None)
  next
    case (Some e)
    then show ?thesis using None assms
      by (simp add: jogos_armazenados_def atualizar_palpites_participante_def Let_def
          find_append_Some)
  qed
next
  case (Some e)
  have "find (\<lambda>e. e_rodada e = Some r)
          (substituir_primeira (\<lambda>e. e_rodada e = Some rodada)
             (\<lambda>e. atualizar_entrada pvs extras (e\<lparr>e_data_palpite := Some agora\<rparr>)) xs)
        = find (\<lambda>e. e_rodada e = Some r) xs" for xs
    by (rule find_outro_substituir_primeira) (use assms in auto)
  then show ?thesis using Some
    by (simp add: jogos_armazenados_def atualizar_palpites_participante_def Let_def)
qed

lemma outras_rodadas_atualizar:
  "outras_rodadas (atualizar_palpites_participante dados rodada pvs extras agora) rodada =
     outras_rodadas dados rodada"
proof (cases "find (\<lambda>e. e_rodada e = Some rodada)
                (case d_palpites dados of None \<Rightarrow> [] | Some es \<Rightarrow> es)")
  case None
  then show ?thesis
    by (simp add: outras_rodadas_def atualizar_palpites_participante_def Let_def)
next
  case (Some e)
  have "filter (\<lambda>e. \<not> e_rodada e = Some rodada)
          (substituir_primeira (\<lambda>e. e_rodada e = Some rodada)
             (\<lambda>e. atualizar_entrada pvs extras (e\<lparr>e_data_palpite := Some agora\<rparr>)) xs)
        = filter (\<lambda>e. \<not> e_rodada e = Some rodada) xs" for xs
    by (rule filter_substituir_primeira) auto
  then show ?thesis using Some
    by (simp add: outras_rodadas_def atualizar_palpites_participante_def Let_def)
qed

lemma filter_reaplicado:
  "filter (\<lambda>jg. v_id jg \<notin> set (map v_id pvs))
     (filter (\<lambda>jg. v_id jg \<notin> set (map v_id pvs)) js @ pvs) @ pvs
   = filter (\<lambda>jg. v_id jg \<notin> set (map v_id pvs)) js @ pvs"
proof -
  have "filter (\<lambda>jg. v_id jg \<notin> set (map v_id pvs)) pvs = []"
    by (simp add: filter_empty_conv)
  then show ?thesis by simp
qed

text \<open>
  C5. After the update of round \<open>rodada\<close> with the validated list \<open>pvs\<close>, the predictions
  stored for that round are the previous ones whose game id does not occur in \<open>pvs\<close>, in
  their order, followed by \<open>pvs\<close>; the predictions stored for every other round and the
  entries of the other rounds are unchanged; and a second update with the same list
  (at any later time) leaves the stored predictions of every round as the first update
  left them.
\<close>

theorem atualizar_palpites_participante_mescla:
  "jogos_armazenados (atualizar_palpites_participante dados rodada pvs extras agora) rodada =
     filter (\<lambda>jg. v_id jg \<notin> set (map v_id pvs)) (jogos_armazenados dados rodada) @ pvs \<and>
   (r \<noteq> rodada \<longrightarrow>
     jogos_armazenados (atualizar_palpites_participante dados rodada pvs extras agora) r =
     jogos_armazenados dados r) \<and>
   outras_rodadas (atualizar_palpites_participante dados rodada pvs extras agora) rodada =
     outras_rodadas dados rodada \<and>
   jogos_armazenados
     (atualizar_palpites_participante
        (atualizar_palpites_participante dados rodada pvs extras agora)
        rodada pvs extras depois) r =
   jogos_armazenados (atualizar_palpites_participante dados rodada pvs extras agora) r"
proof -
  have idem: ?thesis if "r = rodada"
    using that
    by (simp add: jogos_armazenados_atualizar outras_rodadas_atualizar filter_reaplicado)
  have ?thesis if "r \<noteq> rodada"
    using that
    by (simp add: jogos_armazenados_atualizar jogos_armazenados_outra
        outras_rodadas_atualizar)
  with idem show ?thesis by blast
qed

theorem atualizar_palpites_participante_mescla_witness:
  "jogos_armazenados
     (atualizar_palpites_participante dados_exemplo 2
        [validado_ex [103, 50] [65] [66] 3 3] [] [51]) 2 =
     [validado_ex [103, 51] [67] [68] 0 0, validado_ex [103, 50] [65] [66] 3 3] \<and>
   jogos_armazenados
     (atualizar_palpites_participante dados_exemplo 2
        [validado_ex [103, 50] [65] [66] 3 3] [] [51]) 1 =
     [validado_ex [103, 49] [69] [70] 1 0] \<and>
   jogos_armazenados
     (atualizar_palpites_participante
        (atualizar_palpites_participante dados_exemplo 2
           [validado_ex [103, 50] [65] [66] 3 3] [] [51])
        2 [validado_ex [103, 50] [65] [66] 3 3] [] [52]) 2 =
     [validado_ex [103, 51] [67] [68] 0 0, validado_ex [103, 50] [65] [66] 3 3]"
proof -
  let ?P = "[validado_ex [103, 50] [65] [66] 3 3]"
  have a: "jogos_armazenados dados_exemplo 2 =
      [validado_ex [103, 50] [65] [66] 2 1, validado_ex [103, 51] [67] [68] 0 0]"
    and b: "jogos_armazenados dados_exemplo 1 = [validado_ex [103, 49] [69] [70] 1 0]"
    by (simp_all add: jogos_armazenados_def dados_exemplo_def)
  have c: "filter (\<lambda>jg. v_id jg \<notin> set (map v_id ?P))
             [validado_ex [103, 50] [65] [66] 2 1, validado_ex [103, 51] [67] [68] 0 0] @ ?P
           = [validado_ex [103, 51] [67] [68] 0 0, validado_ex [103, 50] [65] [66] 3 3]"
    by (simp add: validado_ex_def)
  show ?thesis
    using atualizar_palpites_participante_mescla [where dados = dados_exemplo
        and rodada = 2 and pvs = ?P and extras = "[]" and agora = "[51]" and r = 1
        and depois = "[52]"]
      atualizar_palpites_participante_mescla [where dados = dados_exemplo
        and rodada = 2 and pvs = ?P and extras = "[]" and agora = "[51]" and r = 2
        and depois = "[52]"]
    by (simp only: a b c)
qed


section \<open>Properties of the name matching\<close>

text \<open>The normalisation as one composition, for evaluation.\<close>

lemma normalizar_nome_time_eq:
  "normalizar_nome_time nome =
     (if nome = [] then []
      else str_strip (\<lambda>c. c = 45) (re_sub_runs (\<lambda>c. c = 45) [45] 
          (filter permitido (str_replace 32 45 (re_sub_runs py_isspace [32] 
          (str_replace 47 45 (str_lower (filter (\<lambda>c. \<not> categoria_Mn c) (normalize_NFD (str_strip py_isspace nome))))))))))"
  by (simp add: normalizar_nome_time_def Let_def)

lemmas norm_defs = normalizar_nome_time_eq str_strip_def py_isspace_def normalize_NFD_def
  decompor_def decomposicoes_def categoria_Mn_def str_lower_def lower_char_def
  str_replace_def permitido_def str_upper_def upper_char_def

lemma distance_eq_0: "distance xs ys = 0 \<longleftrightarrow> xs = ys"
  by (induction xs ys rule: distance.induct) auto

lemma find_filter_implica:
  assumes "\<And>z. z \<in> set xs \<Longrightarrow> P z \<Longrightarrow> Q z"
  shows "find P (filter Q xs) = find P xs"
  using assms by (induction xs) auto

lemma primeiro_minimo_Cons:
  "primeiro_minimo f (x # xs) =
     (if \<exists>y\<in>set xs. f y < f x then primeiro_minimo f (filter (\<lambda>y. f y < f x) xs)
      else Some x)"
proof (cases "\<exists>y\<in>set xs. f y < f x")
  case False
  then have "\<forall>y\<in>set xs. f x \<le> f y" by auto
  then have "Min (f ` set (x # xs)) = f x"
    by (intro Min_eqI) auto
  then have "primeiro_minimo f (x # xs) = Some x"
    by (simp add: primeiro_minimo_def)
  then show ?thesis using False by (auto simp: filter_empty_conv)
next
  case True
  let ?xs' = "filter (\<lambda>y. f y < f x) xs"
  from True have ne: "?xs' \<noteq> []" unfolding filter_empty_conv by blast
  let ?M = "Min (f ` set ?xs')"
  have Min: "?M \<in> f ` set ?xs'" using ne by (intro Min_in) (auto simp: filter_empty_conv)
  then have lt: "?M < f x" by auto
  have lower: "?M \<le> f z" if "z \<in> set (x # xs)" for z
  proof (cases "f z < f x")
    case True
    then have "z \<in> set ?xs'" using that by auto
    then show ?thesis by (intro Min_le) auto
  next
    case False
    then show ?thesis using lt by auto
  qed
  have eq: "Min (f ` set (x # xs)) = ?M"
  proof (rule Min_eqI)
    show "finite (f ` set (x # xs))" by simp
    show "\<And>y. y \<in> f ` set (x # xs) \<Longrightarrow> ?M \<le> y" using lower by auto
    show "?M \<in> f ` set (x # xs)" using Min by auto
  qed
  have "find (\<lambda>z. f z = ?M) ?xs' = find (\<lambda>z. f z = ?M) xs"
    by (rule find_filter_implica) (use lt in auto)
  then show ?thesis using True ne lt eq
    by (simp add: primeiro_minimo_def del: set_simps image_insert)
qed

lemma enat_menor_trans: "a < b \<Longrightarrow> enat b < md \<Longrightarrow> enat a < md"
  by (metis enat_ord_simps(2) less_trans)

lemma encontrar_laco_exato:
  assumes "find (\<lambda>t. distance nn (normalizar_nome_time t) = 0) ts = Some t"
  shows "encontrar_laco nn lmt ts m md = Some t"
  using assms by (induction ts arbitrary: m md) (auto simp: Let_def split: if_splits)

lemma encontrar_laco_aprox:
  assumes "\<forall>t\<in>set ts. distance nn (normalizar_nome_time t) \<noteq> 0"
  shows "encontrar_laco nn lmt ts m md =
     (let cs = filter (\<lambda>t. int (distance nn (normalizar_nome_time t)) \<le> lmt \<and>
                           enat (distance nn (normalizar_nome_time t)) < md) ts
      in if cs = [] then m else primeiro_minimo (\<lambda>t. distance nn (normalizar_nome_time t)) cs)"
  using assms
proof (induction ts arbitrary: m md)
  case Nil
  then show ?case by simp
next
  case (Cons t ts)
  let ?d = "\<lambda>t. distance nn (normalizar_nome_time t)"
  have nz: "?d t \<noteq> 0" and rest: "\<forall>u\<in>set ts. ?d u \<noteq> 0" using Cons.prems by auto
  show ?case
  proof (cases "int (?d t) \<le> lmt \<and> enat (?d t) < md")
    case False
    then show ?thesis using nz Cons.IH [OF rest] by (auto simp: Let_def)
  next
    case True
    have f: "filter (\<lambda>y. ?d y < ?d t)
               (filter (\<lambda>u. int (?d u) \<le> lmt \<and> enat (?d u) < md) ts)
             = filter (\<lambda>u. int (?d u) \<le> lmt \<and> enat (?d u) < enat (?d t)) ts"
      using True by (auto intro!: filter_cong dest: enat_menor_trans)
    have e: "(\<exists>y\<in>set (filter (\<lambda>u. int (?d u) \<le> lmt \<and> enat (?d u) < md) ts). ?d y < ?d t)
         \<longleftrightarrow> filter (\<lambda>u. int (?d u) \<le> lmt \<and> enat (?d u) < enat (?d t)) ts \<noteq> []"
      using True by (auto simp: filter_empty_conv dest: enat_menor_trans)
    have "encontrar_laco nn lmt (t # ts) m md = encontrar_laco nn lmt ts (Some t) (enat (?d t))"
      using True nz by (simp add: Let_def)
    also have "\<dots> = (let cs = filter (\<lambda>u. int (?d u) \<le> lmt \<and> enat (?d u) < enat (?d t)) ts
      in if cs = [] then Some t else primeiro_minimo ?d cs)"
      by (rule Cons.IH [OF rest])
    also have "\<dots> = primeiro_minimo ?d (t # filter (\<lambda>u. int (?d u) \<le> lmt \<and> enat (?d u) < md) ts)"
      unfolding primeiro_minimo_Cons f e by (simp add: Let_def)
    finally show ?thesis using True by (simp add: Let_def)
  qed
qed

text \<open>
  C8. For a non-empty candidate and a non-empty list of known names, the result is the
  first known name whose normalised form equals the normalised candidate, when there is
  one; otherwise the first known name at the least Levenshtein distance (between the
  normalised forms) among those at a distance of at most the limit; and \<open>None\<close> when no
  known name is within the limit.
\<close>

theorem encontrar_time_similar_spec:
  assumes "nome \<noteq> []" and "times_validos \<noteq> []"
  shows "encontrar_time_similar nome times_validos limite =
     (case find (\<lambda>t. normalizar_nome_time t = normalizar_nome_time nome) times_validos of
        Some t \<Rightarrow> Some t
      | None \<Rightarrow>
          primeiro_minimo
            (\<lambda>t. distance (normalizar_nome_time nome) (normalizar_nome_time t))
            (filter (\<lambda>t. int (distance (normalizar_nome_time nome) (normalizar_nome_time t))
                         \<le> limite) times_validos))"
proof -
  let ?nn = "normalizar_nome_time nome"
  have eq: "(\<lambda>t. normalizar_nome_time t = ?nn) = (\<lambda>t. distance ?nn (normalizar_nome_time t) = 0)"
    by (auto simp: distance_eq_0)
  show ?thesis
  proof (cases "find (\<lambda>t. normalizar_nome_time t = ?nn) times_validos")
    case (Some t)
    then show ?thesis using assms encontrar_laco_exato [of ?nn times_validos t]
      by (simp add: encontrar_time_similar_def eq)
  next
    case None
    then have "\<forall>t\<in>set times_validos. distance ?nn (normalizar_nome_time t) \<noteq> 0"
      by (auto simp: find_None_iff distance_eq_0)
    from encontrar_laco_aprox [OF this, of limite None \<infinity>] None assms
    show ?thesis
      by (simp add: encontrar_time_similar_def Let_def primeiro_minimo_def)
  qed
qed

theorem encontrar_time_similar_spec_witness:
  "encontrar_time_similar [97, 98] [[97, 98, 99], [65, 66], [97]] 3 = Some [65, 66] \<and>
   encontrar_time_similar [97, 98] [[97, 98, 99, 100], [97, 98, 99], [97, 98, 100]] 3
     = Some [97, 98, 99] \<and>
   encontrar_time_similar [97, 98] [[119, 120, 121, 122, 49, 50]] 3 = None"
proof -
  have n: "normalizar_nome_time [97, 98] = [97, 98]"
    "normalizar_nome_time [97, 98, 99] = [97, 98, 99]"
    "normalizar_nome_time [65, 66] = [97, 98]"
    "normalizar_nome_time [97] = [97]"
    "normalizar_nome_time [97, 98, 99, 100] = [97, 98, 99, 100]"
    "normalizar_nome_time [97, 98, 100] = [97, 98, 100]"
    "normalizar_nome_time [119, 120, 121, 122, 49, 50] = [119, 120, 121, 122, 49, 50]"
    by (simp_all add: norm_defs)
  have a: "[97, 98] \<noteq> ([]::pystr)" by simp
  have b: "[[97, 98, 99], [65, 66], [97]] \<noteq> ([]::pystr list)"
    "[[97, 98, 99, 100], [97, 98, 99], [97, 98, 100]] \<noteq> ([]::pystr list)"
    "[[119, 120, 121, 122, 49, 50]] \<noteq> ([]::pystr list)"
    by simp_all
  show ?thesis
    using encontrar_time_similar_spec [OF a b(1), of 3]
      encontrar_time_similar_spec [OF a b(2), of 3]
      encontrar_time_similar_spec [OF a b(3), of 3]
    by (simp add: n primeiro_minimo_def)
qed


section \<open>Properties of the round inference\<close>


lemma primeiro_maximo_Cons:
  "primeiro_maximo f (x # xs) =
     (if \<exists>y\<in>set xs. f x < f y then primeiro_maximo f (filter (\<lambda>y. f x < f y) xs)
      else Some x)"
proof (cases "\<exists>y\<in>set xs. f x < f y")
  case False
  then have "\<forall>y\<in>set xs. f y \<le> f x" by auto
  then have "Max (f ` set (x # xs)) = f x"
    by (intro Max_eqI) auto
  then have "primeiro_maximo f (x # xs) = Some x"
    by (simp add: primeiro_maximo_def)
  then show ?thesis using False by (auto simp: filter_empty_conv)
next
  case True
  let ?xs' = "filter (\<lambda>y. f x < f y) xs"
  from True have ne: "?xs' \<noteq> []" unfolding filter_empty_conv by blast
  let ?M = "Max (f ` set ?xs')"
  have Max: "?M \<in> f ` set ?xs'" using ne by (intro Max_in) (auto simp: filter_empty_conv)
  then have lt: "f x < ?M" by auto
  have upper: "f z \<le> ?M" if "z \<in> set (x # xs)" for z
  proof (cases "f x < f z")
    case True
    then have "z \<in> set ?xs'" using that by auto
    then show ?thesis by (intro Max_ge) auto
  next
    case False
    then show ?thesis using lt by auto
  qed
  have eq: "Max (f ` set (x # xs)) = ?M"
  proof (rule Max_eqI)
    show "finite (f ` set (x # xs))" by simp
    show "\<And>y. y \<in> f ` set (x # xs) \<Longrightarrow> y \<le> ?M" using upper by auto
    show "?M \<in> f ` set (x # xs)" using Max by auto
  qed
  have "find (\<lambda>z. f z = ?M) ?xs' = find (\<lambda>z. f z = ?M) xs"
    by (rule find_filter_implica) (use lt in auto)
  then show ?thesis using True ne lt eq
    by (simp add: primeiro_maximo_def del: set_simps image_insert)
qed

lemma primeiro_maximo_filter:
  assumes "\<exists>y\<in>set xs. m < f y"
  shows "primeiro_maximo f (filter (\<lambda>y. m < f y) xs) = primeiro_maximo f xs"
proof -
  let ?xs' = "filter (\<lambda>y. m < f y) xs"
  from assms have ne: "?xs' \<noteq> []" unfolding filter_empty_conv by blast
  then have ne2: "xs \<noteq> []" by auto
  let ?M = "Max (f ` set ?xs')"
  have Max: "?M \<in> f ` set ?xs'" using ne by (intro Max_in) (auto simp: filter_empty_conv)
  then have lt: "m < ?M" by auto
  have upper: "f z \<le> ?M" if "z \<in> set xs" for z
  proof (cases "m < f z")
    case True
    then have "z \<in> set ?xs'" using that by auto
    then show ?thesis by (intro Max_ge) auto
  next
    case False
    then show ?thesis using lt by auto
  qed
  have eq: "Max (f ` set xs) = ?M"
  proof (rule Max_eqI)
    show "finite (f ` set xs)" by simp
    show "\<And>y. y \<in> f ` set xs \<Longrightarrow> y \<le> ?M" using upper by auto
    show "?M \<in> f ` set xs" using Max by auto
  qed
  have "find (\<lambda>z. f z = ?M) ?xs' = find (\<lambda>z. f z = ?M) xs"
    by (rule find_filter_implica) (use lt in auto)
  then show ?thesis using ne ne2 eq by (simp add: primeiro_maximo_def)
qed

lemma finite_adicionar_time: "finite A \<Longrightarrow> finite (adicionar_time n A)"
  by (simp add: adicionar_time_def split: option.splits)

lemma finite_extrair_times_palpites:
  "finite A \<Longrightarrow> finite (extrair_times_palpites ps A)"
  by (induction ps arbitrary: A) (simp_all add: finite_adicionar_time)

lemma score_rodada_perfeito:
  assumes "finite S"
  shows "score_rodada S r = 1 \<longleftrightarrow> S \<noteq> {} \<and> S \<subseteq> times_da_rodada r"
proof (cases "S = {}")
  case True
  then show ?thesis by (simp add: score_rodada_def)
next
  case False
  then have pos: "0 < card S" using assms by (simp add: card_gt_0_iff)
  have "card (S \<inter> times_da_rodada r) = card S \<longleftrightarrow> S \<subseteq> times_da_rodada r"
  proof
    assume "card (S \<inter> times_da_rodada r) = card S"
    then have "S \<inter> times_da_rodada r = S"
      using assms by (intro card_subset_eq) auto
    then show "S \<subseteq> times_da_rodada r" by blast
  next
    assume "S \<subseteq> times_da_rodada r"
    then have "S \<inter> times_da_rodada r = S" by blast
    then show "card (S \<inter> times_da_rodada r) = card S" by simp
  qed
  then show ?thesis using False pos by (auto simp: score_rodada_def)
qed

lemma score_rodada_nonneg: "0 \<le> score_rodada S r"
  by (simp add: score_rodada_def)

lemma inferir_laco_passo:
  "inferir_laco S (r # rs) mr ms =
     (if rodada_valida r \<and> times_da_rodada r \<noteq> {} then
        (if score_rodada S r = 1 then r_numero r
         else if ms < score_rodada S r then inferir_laco S rs (r_numero r) (score_rodada S r)
         else inferir_laco S rs mr ms)
      else inferir_laco S rs mr ms)"
  by (auto simp: rodada_valida_def times_da_rodada_def score_rodada_def Let_def
      split: option.splits)

declare inferir_laco.simps(2) [simp del]

lemma find_filter_conj: "find P (filter Q xs) = find (\<lambda>x. Q x \<and> P x) xs"
  by (induction xs) auto

lemma filter_filter_conj: "filter P (filter Q xs) = filter (\<lambda>x. Q x \<and> P x) xs"
  by (induction xs) auto

lemma score_rodada_vazia: "times_da_rodada r = {} \<Longrightarrow> score_rodada S r = 0"
  by (simp add: score_rodada_def)

lemma inferir_laco_perfeita:
  assumes "find (\<lambda>r. rodada_valida r \<and> score_rodada S r = 1) rs = Some r"
  shows "inferir_laco S rs mr ms = r_numero r"
  using assms
proof (induction rs arbitrary: mr ms)
  case Nil
  then show ?case by simp
next
  case (Cons a rs)
  show ?case
  proof (cases "rodada_valida a \<and> score_rodada S a = 1")
    case True
    then have "times_da_rodada a \<noteq> {}" using score_rodada_vazia [of a S] by auto
    then show ?thesis using True Cons.prems by (simp add: inferir_laco_passo)
  next
    case False
    then have "find (\<lambda>r. rodada_valida r \<and> score_rodada S r = 1) rs = Some r"
      using Cons.prems by auto
    from Cons.IH [OF this] show ?thesis using False
      by (auto simp: inferir_laco_passo)
  qed
qed

lemma inferir_laco_sem_perfeita:
  assumes "0 \<le> ms" and "\<forall>r\<in>set rs. rodada_valida r \<longrightarrow> score_rodada S r \<noteq> 1"
  shows "inferir_laco S rs mr ms =
     (let cs = filter (\<lambda>r. rodada_valida r \<and> ms < score_rodada S r) rs
      in if cs = [] then (if 1 / 2 \<le> ms then mr else None)
         else (case primeiro_maximo (score_rodada S) cs of
                 None \<Rightarrow> None
               | Some r \<Rightarrow> if 1 / 2 \<le> score_rodada S r then r_numero r else None))"
  using assms
proof (induction rs arbitrary: mr ms)
  case Nil
  then show ?case by simp
next
  case (Cons a rs)
  let ?sc = "score_rodada S"
  have rest: "\<forall>r\<in>set rs. rodada_valida r \<longrightarrow> ?sc r \<noteq> 1" using Cons.prems by auto
  show ?case
  proof (cases "rodada_valida a \<and> ms < ?sc a")
    case False
    then have "inferir_laco S (a # rs) mr ms = inferir_laco S rs mr ms"
      using Cons.prems score_rodada_vazia [of a S] by (auto simp: inferir_laco_passo)
    then show ?thesis using False Cons.IH [OF Cons.prems(1) rest] by (auto simp: Let_def)
  next
    case True
    then have ne: "times_da_rodada a \<noteq> {}" using Cons.prems score_rodada_vazia [of a S] by auto
    have n1: "?sc a \<noteq> 1" using True Cons.prems by auto
    have f: "filter (\<lambda>y. ?sc a < ?sc y) (filter (\<lambda>r. rodada_valida r \<and> ms < ?sc r) rs)
             = filter (\<lambda>r. rodada_valida r \<and> ?sc a < ?sc r) rs"
      using True by (auto intro!: filter_cong)
    have e: "(\<exists>y\<in>set (filter (\<lambda>r. rodada_valida r \<and> ms < ?sc r) rs). ?sc a < ?sc y)
         \<longleftrightarrow> filter (\<lambda>r. rodada_valida r \<and> ?sc a < ?sc r) rs \<noteq> []"
      using True by (auto simp: filter_empty_conv)
    have "inferir_laco S (a # rs) mr ms = inferir_laco S rs (r_numero a) (?sc a)"
      using True ne n1 by (simp add: inferir_laco_passo)
    also have "\<dots> = (let cs = filter (\<lambda>r. rodada_valida r \<and> ?sc a < ?sc r) rs
      in if cs = [] then (if 1 / 2 \<le> ?sc a then r_numero a else None)
         else (case primeiro_maximo ?sc cs of
                 None \<Rightarrow> None
               | Some r \<Rightarrow> if 1 / 2 \<le> ?sc r then r_numero r else None))"
      by (rule Cons.IH [OF score_rodada_nonneg rest])
    also have "\<dots> = (case primeiro_maximo ?sc (a # filter (\<lambda>r. rodada_valida r \<and> ms < ?sc r) rs) of
                 None \<Rightarrow> None
               | Some r \<Rightarrow> if 1 / 2 \<le> ?sc r then r_numero r else None)"
      unfolding primeiro_maximo_Cons f e by (simp add: Let_def)
    finally show ?thesis using True by (simp add: Let_def)
  qed
qed


lemma primeiro_maximo_zero:
  assumes "\<forall>r\<in>set xs. f r \<le> (0::rat)"
  shows "(case primeiro_maximo f xs of None \<Rightarrow> None
          | Some r \<Rightarrow> if 1 / 2 \<le> f r then g r else None) = None"
proof (cases "primeiro_maximo f xs")
  case None
  then show ?thesis by simp
next
  case (Some r)
  then have "r \<in> set xs"
    by (auto simp: primeiro_maximo_def find_Some_iff split: if_splits)
  then have "f r \<le> 0" using assms by auto
  then show ?thesis using Some by simp
qed

lemma primeiro_maximo_filter_conj:
  assumes "\<exists>y\<in>set xs. Q y \<and> m < f y"
  shows "primeiro_maximo f (filter (\<lambda>y. Q y \<and> m < f y) xs) = primeiro_maximo f (filter Q xs)"
proof -
  have "\<exists>y\<in>set (filter Q xs). m < f y" using assms by auto
  from primeiro_maximo_filter [OF this] show ?thesis by (simp only: filter_filter_conj)
qed

text \<open>The loop from its initial state, over all the rounds.\<close>

lemma inferir_laco_inicial:
  assumes "\<forall>r\<in>set rs. rodada_valida r \<longrightarrow> score_rodada S r \<noteq> 1"
  shows "inferir_laco S rs None 0 =
     (case primeiro_maximo (score_rodada S) (filter rodada_valida rs) of
        None \<Rightarrow> None
      | Some r \<Rightarrow> if 1 / 2 \<le> score_rodada S r then r_numero r else None)"
proof -
  let ?sc = "score_rodada S"
  let ?cs = "filter (\<lambda>r. rodada_valida r \<and> 0 < ?sc r) rs"
  have laco: "inferir_laco S rs None 0 =
     (if ?cs = [] then None
      else (case primeiro_maximo ?sc ?cs of
              None \<Rightarrow> None
            | Some r \<Rightarrow> if 1 / 2 \<le> ?sc r then r_numero r else None))"
    using inferir_laco_sem_perfeita [OF _ assms, of 0 None] by (simp add: Let_def)
  show ?thesis
  proof (cases "\<exists>y\<in>set rs. rodada_valida y \<and> 0 < ?sc y")
    case True
    then have "?cs \<noteq> []" unfolding filter_empty_conv by blast
    then show ?thesis
      unfolding laco using primeiro_maximo_filter_conj [OF True] by (simp only: if_False)
  next
    case False
    then have e: "?cs = []" unfolding filter_empty_conv by blast
    have "\<forall>r\<in>set (filter rodada_valida rs). ?sc r \<le> 0" using False by (auto simp: not_less)
    from primeiro_maximo_zero [OF this, of r_numero]
    show ?thesis unfolding laco e by simp
  qed
qed

text \<open>
  C7. For a non-empty list of predictions, with \<open>S\<close> the set of the normalised team names
  they mention and the score of a round \<open>|S \<inter> T| / |S|\<close> (\<open>0\<close> when \<open>S\<close> is empty, as in the
  code): the result is the number of the first round, in the order of the schedule,
  whose score is 1; when no round scores 1, the number of the first round of the highest
  score, provided that score is at least \<open>1/2\<close>; otherwise \<open>None\<close>. The rounds considered
  are those that carry a number and a list of games. A round scores 1 exactly when
  \<open>S\<close> is not empty and its team set contains \<open>S\<close>.
\<close>

theorem inferir_rodada_spec:
  assumes "palpites \<noteq> []"
  shows "inferir_rodada palpites tab =
     (let S = extrair_times_palpites palpites {};
          vs = filter rodada_valida (rodadas_da_tabela tab)
      in case find (\<lambda>r. score_rodada S r = 1) vs of
           Some r \<Rightarrow> r_numero r
         | None \<Rightarrow>
             (case primeiro_maximo (score_rodada S) vs of
                None \<Rightarrow> None
              | Some r \<Rightarrow> if 1 / 2 \<le> score_rodada S r then r_numero r else None)) \<and>
     (score_rodada (extrair_times_palpites palpites {}) r = 1 \<longleftrightarrow>
        extrair_times_palpites palpites {} \<noteq> {} \<and>
        extrair_times_palpites palpites {} \<subseteq> times_da_rodada r)"
proof -
  let ?S = "extrair_times_palpites palpites {}"
  let ?rs = "rodadas_da_tabela tab"
  let ?vs = "filter rodada_valida ?rs"
  let ?sc = "score_rodada ?S"
  have fin: "finite ?S" by (simp add: finite_extrair_times_palpites)
  have ff: "find (\<lambda>r. ?sc r = 1) ?vs = find (\<lambda>r. rodada_valida r \<and> ?sc r = 1) ?rs"
    by (rule find_filter_conj)
  have A: "inferir_rodada palpites tab =
      (case find (\<lambda>r. ?sc r = 1) ?vs of
           Some r \<Rightarrow> r_numero r
         | None \<Rightarrow>
             (case primeiro_maximo ?sc ?vs of
                None \<Rightarrow> None
              | Some r \<Rightarrow> if 1 / 2 \<le> ?sc r then r_numero r else None))"
  proof (cases "?S = {}")
    case True
    then have z: "?sc r = 0" for r by (simp add: score_rodada_def)
    have "inferir_rodada palpites tab = None"
      using True by (simp add: inferir_rodada_def Let_def split: option.splits)
    moreover have "find (\<lambda>r. ?sc r = 1) ?vs = None"
      by (simp add: z find_None_iff)
    moreover have "(case primeiro_maximo ?sc ?vs of None \<Rightarrow> None
          | Some r \<Rightarrow> if 1 / 2 \<le> ?sc r then r_numero r else None) = None"
      by (rule primeiro_maximo_zero) (simp add: z)
    ultimately show ?thesis by (simp only: option.case)
  next
    case False
    have inf: "inferir_rodada palpites tab = inferir_laco ?S ?rs None 0"
      using False assms
      by (simp add: inferir_rodada_def Let_def rodadas_da_tabela_def split: option.splits)
    show ?thesis
    proof (cases "find (\<lambda>r. rodada_valida r \<and> ?sc r = 1) ?rs")
      case (Some r)
      show ?thesis
        unfolding inf ff Some using inferir_laco_perfeita [OF Some] by (simp only: option.case)
    next
      case None
      then have np: "\<forall>r\<in>set ?rs. rodada_valida r \<longrightarrow> ?sc r \<noteq> 1"
        by (auto simp: find_None_iff)
      show ?thesis
        unfolding inf ff None using inferir_laco_inicial [OF np] by (simp only: option.case)
    qed
  qed
  have B: "?sc r = 1 \<longleftrightarrow> ?S \<noteq> {} \<and> ?S \<subseteq> times_da_rodada r"
    by (rule score_rodada_perfeito [OF fin])
  show ?thesis unfolding Let_def using A B by (rule conjI)
qed

theorem inferir_rodada_spec_witness:
  "inferir_rodada [extraido_de [65] [66] (Some 2) (Some 1)] tabela_exemplo = Some 2 \<and>
   inferir_rodada [extraido_de [65] [69] None None] tabela_exemplo = Some 1 \<and>
   inferir_rodada [extraido_de [65] [88] None None, extraido_de [89] [90] None None]
     tabela_exemplo = None"
proof -
  let ?r1 = "\<lparr>r_numero = Some 1, r_jogos = Some [jogo_de [103, 49] [69] [70]]\<rparr>"
  let ?r2 = "\<lparr>r_numero = Some 2,
            r_jogos = Some [jogo_de [103, 50] [65] [66], jogo_de [103, 51] [67] [68]]\<rparr>"
  have n: "normalizar_nome_time [c] = [c + 32]" if "65 \<le> c" "c \<le> 90" for c
    using that by (simp add: norm_defs)
  have S1: "extrair_times_palpites [extraido_de [65] [66] (Some 2) (Some 1)] {} = {[97], [98]}"
    and S2: "extrair_times_palpites [extraido_de [65] [69] None None] {} = {[97], [101]}"
    and S3: "extrair_times_palpites
               [extraido_de [65] [88] None None, extraido_de [89] [90] None None] {}
             = {[97], [120], [121], [122]}"
    by (auto simp: extraido_de_def adicionar_time_def n)
  have T1: "times_da_rodada ?r1 = {[101], [102]}"
    and T2: "times_da_rodada ?r2 = {[97], [98], [99], [100]}"
    by (auto simp: times_da_rodada_def jogo_de_def adicionar_time_def n)
  have vs: "filter rodada_valida (rodadas_da_tabela tabela_exemplo) = [?r1, ?r2]"
    by (simp add: rodadas_da_tabela_def tabela_exemplo_def rodada_valida_def)
  have i1: "{[97], [98]} \<inter> {[101], [102]} = ({}::pystr set)"
    "{[97], [98]} \<inter> {[97], [98], [99], [100]} = ({[97], [98]}::pystr set)"
    "{[97], [101]} \<inter> {[101], [102]} = ({[101]}::pystr set)"
    "{[97], [101]} \<inter> {[97], [98], [99], [100]} = ({[97]}::pystr set)"
    "{[97], [120], [121], [122]} \<inter> {[101], [102]} = ({}::pystr set)"
    "{[97], [120], [121], [122]} \<inter> {[97], [98], [99], [100]} = ({[97]}::pystr set)"
    by auto
  have sc: "score_rodada {[97], [98]} ?r1 = 0" "score_rodada {[97], [98]} ?r2 = 1"
    "score_rodada {[97], [101]} ?r1 = 1 / 2" "score_rodada {[97], [101]} ?r2 = 1 / 2"
    "score_rodada {[97], [120], [121], [122]} ?r1 = 0"
    "score_rodada {[97], [120], [121], [122]} ?r2 = 1 / 4"
    unfolding score_rodada_def T1 T2 i1 by simp_all
  have p: "[extraido_de [65] [66] (Some 2) (Some 1)] \<noteq> []"
    "[extraido_de [65] [69] None None] \<noteq> []"
    "[extraido_de [65] [88] None None, extraido_de [89] [90] None None] \<noteq> []"
    by simp_all
  have a: "inferir_rodada [extraido_de [65] [66] (Some 2) (Some 1)] tabela_exemplo = Some 2"
    using inferir_rodada_spec [OF p(1), of tabela_exemplo ?r1]
    unfolding Let_def S1 vs by (simp add: sc)
  have b: "inferir_rodada [extraido_de [65] [69] None None] tabela_exemplo = Some 1"
    using inferir_rodada_spec [OF p(2), of tabela_exemplo ?r1]
    unfolding Let_def S2 vs by (simp add: sc primeiro_maximo_def)
  have c: "inferir_rodada [extraido_de [65] [88] None None, extraido_de [89] [90] None None]
     tabela_exemplo = None"
    using inferir_rodada_spec [OF p(3), of tabela_exemplo ?r1]
    unfolding Let_def S3 vs by (simp add: sc primeiro_maximo_def)
  show ?thesis using a b c by simp
qed


section \<open>Properties of the normalisation\<close>


































end
